theory Spec2Isabelle
  imports Main "HOL-Library.Sublist"
begin

section \<open>Strings\<close>

text \<open>
  A Python \<open>str\<close> is modelled as a \<open>string\<close>: the list of its code points, each an
  8-bit \<open>char\<close>. The model therefore covers the strings whose code points are below 256
  (ASCII and the Latin-1 supplement); the character classes below are the ones Python
  assigns to these code points.

  \<open>sub in s\<close> on strings is the contiguous-sublist test \<open>sublist sub s\<close> of the library.
\<close>

definition in_range :: "nat \<Rightarrow> nat \<Rightarrow> char \<Rightarrow> bool" where
  "in_range lo hi c = (lo \<le> of_char c \<and> (of_char c :: nat) \<le> hi)"

definition is_decimal :: "char \<Rightarrow> bool" where
  \<comment> \<open>\<open>\d\<close> of a \<open>str\<close> pattern: the decimal digits.\<close>
  "is_decimal c = in_range 48 57 c"

definition is_word :: "char \<Rightarrow> bool" where
  \<comment> \<open>\<open>\w\<close> of a \<open>str\<close> pattern: alphanumeric code points and the underscore.\<close>
  "is_word c =
     (in_range 48 57 c \<or> in_range 65 90 c \<or> in_range 95 95 c \<or> in_range 97 122 c \<or>
      in_range 170 170 c \<or> in_range 178 179 c \<or> in_range 181 181 c \<or>
      in_range 185 186 c \<or> in_range 188 190 c \<or> in_range 192 214 c \<or>
      in_range 216 246 c \<or> in_range 248 255 c)"

definition is_space :: "char \<Rightarrow> bool" where
  \<comment> \<open>the characters \<open>str.strip()\<close> removes\<close>
  "is_space c =
     (in_range 9 13 c \<or> in_range 28 32 c \<or> in_range 133 133 c \<or> in_range 160 160 c)"

definition is_upper :: "char \<Rightarrow> bool" where
  "is_upper c = (in_range 65 90 c \<or> in_range 192 214 c \<or> in_range 216 222 c)"

definition is_cased :: "char \<Rightarrow> bool" where
  "is_cased c =
     (in_range 65 90 c \<or> in_range 97 122 c \<or> in_range 170 170 c \<or> in_range 181 181 c \<or>
      in_range 186 186 c \<or> in_range 192 214 c \<or> in_range 216 246 c \<or>
      in_range 248 255 c)"

definition to_lower :: "char \<Rightarrow> char" where
  "to_lower c = (if is_upper c then char_of (of_char c + 32 :: nat) else c)"

definition lower :: "string \<Rightarrow> string" where
  \<comment> \<open>\<open>str.lower()\<close>\<close>
  "lower s = map to_lower s"

definition to_title :: "char \<Rightarrow> string" where
  \<comment> \<open>The title-case form of one character. The sharp s becomes \<open>Ss\<close>. The micro sign
     (181) and the y with diaeresis (255) have their capital forms outside the 8-bit range
     (924 and 376): the model leaves these two characters as they are.\<close>
  "to_title c =
     (if of_char c = (223 :: nat) then ''Ss''
      else if in_range 97 122 c \<or> in_range 224 246 c \<or> in_range 248 254 c
      then [char_of (of_char c - 32 :: nat)]
      else [c])"

fun title_from :: "bool \<Rightarrow> string \<Rightarrow> string" where
  "title_from previous_is_cased [] = []"
| "title_from previous_is_cased (c # cs) =
     (if previous_is_cased then [to_lower c] else to_title c) @ title_from (is_cased c) cs"

definition title :: "string \<Rightarrow> string" where
  \<comment> \<open>\<open>str.title()\<close>: a cased character is capitalised unless a cased character
     precedes it, and lowercased when one does.\<close>
  "title s = title_from False s"

definition strip :: "string \<Rightarrow> string" where
  \<comment> \<open>\<open>str.strip()\<close>\<close>
  "strip s = rev (dropWhile is_space (rev (dropWhile is_space s)))"

section \<open>The catalog and the filters\<close>

text \<open>
  A row of the data frame \<open>df\<close>, with the columns the program reads. Text columns are
  strings (missing cells were filled with the empty string at load); \<open>release_year\<close> is
  the integer column \<open>read_csv\<close> produces for it. The data frame is the list of its rows.
\<close>

record entry =
  title_col :: string
  description :: string
  type_col :: string
  country :: string
  listed_in :: string
  release_year :: int

text \<open>The dictionary \<open>filters\<close>: four keys, each \<open>None\<close> or a string.\<close>

record filters =
  f_type :: "string option"
  f_country :: "string option"
  f_listed_in :: "string option"
  f_release_year :: "string option"

section \<open>\<open>extract_filters\<close>\<close>

text \<open>
  The spaCy pipeline \<open>nlp\<close> is an external collaborator: a function from a text to a
  document, of which the program reads the entities (text and label) and the token texts.
\<close>

record ent =
  ent_text :: string
  ent_label :: string

record doc =
  ents :: "ent list"
  tokens :: "string list"

subsection \<open>The year pattern\<close>

text \<open>
  \<open>re.search(r"\b(19|20)\d{2}\b", user_query)\<close>. A word boundary \<open>\b\<close> lies between two
  positions when exactly one of the neighbouring characters is a word character; the
  start and the end of the string count as non-word. \<open>year_match_here prev s\<close> is the
  match attempt at the position where \<open>s\<close> begins and \<open>prev\<close> is the character before it;
  \<open>re_search_year\<close> tries the positions from left to right and returns the text of the
  first match (\<open>year_match.group()\<close>).
\<close>

definition word_opt :: "char option \<Rightarrow> bool" where
  "word_opt c = (case c of None \<Rightarrow> False | Some x \<Rightarrow> is_word x)"

definition boundary :: "char option \<Rightarrow> char option \<Rightarrow> bool" where
  "boundary before after = (word_opt before \<noteq> word_opt after)"

definition next_char :: "string \<Rightarrow> char option" where
  "next_char s = (case s of [] \<Rightarrow> None | c # _ \<Rightarrow> Some c)"

fun year_match_here :: "char option \<Rightarrow> string \<Rightarrow> string option" where
  "year_match_here prev (a # b # c # d # rest) =
     (if boundary prev (Some a) \<and> ([a, b] = ''19'' \<or> [a, b] = ''20'') \<and>
         is_decimal c \<and> is_decimal d \<and> boundary (Some d) (next_char rest)
      then Some [a, b, c, d] else None)"
| "year_match_here prev s = None"

fun re_search_year_from :: "char option \<Rightarrow> string \<Rightarrow> string option" where
  "re_search_year_from prev [] = None"
| "re_search_year_from prev (c # cs) =
     (case year_match_here prev (c # cs) of
        Some y \<Rightarrow> Some y
      | None \<Rightarrow> re_search_year_from (Some c) cs)"

definition re_search_year :: "string \<Rightarrow> string option" where
  "re_search_year s = re_search_year_from None s"

subsection \<open>The extractor\<close>

definition genres :: "string list" where
  "genres = [''action'', ''comedy'', ''drama'', ''horror'', ''romance'', ''thriller'',
             ''documentary'', ''sci-fi'', ''crime'', ''kids'', ''family'', ''anime'']"

definition no_filters :: filters where
  "no_filters = \<lparr>f_type = None, f_country = None, f_listed_in = None, f_release_year = None\<rparr>"

definition set_year :: "string \<Rightarrow> filters \<Rightarrow> filters" where
  "set_year user_query fs =
     (case re_search_year user_query of
        Some y \<Rightarrow> fs\<lparr>f_release_year := Some y\<rparr>
      | None \<Rightarrow> fs)"

definition set_country :: "ent list \<Rightarrow> filters \<Rightarrow> filters" where
  \<comment> \<open>the loop over \<open>doc.ents\<close>: every entity labelled GPE overwrites the country\<close>
  "set_country es fs =
     fold (\<lambda>e acc. if ent_label e = ''GPE'' then acc\<lparr>f_country := Some (title (ent_text e))\<rparr>
                    else acc) es fs"

definition set_genre :: "string list \<Rightarrow> filters \<Rightarrow> filters" where
  \<comment> \<open>the loop over the tokens: every token in \<open>genres\<close> overwrites the genre\<close>
  "set_genre ts fs =
     fold (\<lambda>t acc. if lower t \<in> set genres then acc\<lparr>f_listed_in := Some (title t)\<rparr>
                    else acc) ts fs"

definition set_type :: "string \<Rightarrow> filters \<Rightarrow> filters" where
  \<comment> \<open>the keyword tests read \<open>user_query\<close> itself, not its lowercased form\<close>
  "set_type user_query fs =
     (if sublist ''movie'' user_query then fs\<lparr>f_type := Some ''Movie''\<rparr>
      else if sublist ''show'' user_query \<or> sublist ''series'' user_query
      then fs\<lparr>f_type := Some ''TV Show''\<rparr>
      else fs)"

definition extract_filters :: "(string \<Rightarrow> doc) \<Rightarrow> string \<Rightarrow> filters" where
  "extract_filters nlp user_query =
     (let d = nlp (lower user_query) in
      set_type user_query
        (set_genre (tokens d)
          (set_country (ents d)
            (set_year user_query no_filters))))"

section \<open>\<open>filter_data\<close>\<close>

subsection \<open>Errors\<close>

text \<open>
  Every way in which a modelled function fails to return is a value: an exception that
  \<open>except Exception\<close> does not catch (\<open>Uncaught\<close>), a positional index outside the
  data frame (\<open>IndexError\<close>), and a search pattern outside the part of the regular
  expression language that the model interprets (\<open>Unmodelled_pattern\<close>).
\<close>

datatype exc_kind = TimeoutExpired | Other_Exception | Not_An_Exception

datatype error = Unmodelled_pattern string | IndexError | Uncaught exc_kind string

subsection \<open>\<open>Series.str.contains(pat, case=False, na=False)\<close>\<close>

text \<open>
  \<open>str.contains\<close> is called without \<open>regex=False\<close>, so \<open>pat\<close> is compiled as a regular
  expression (with \<open>re.IGNORECASE\<close>) and searched for in every cell. The model interprets
  the patterns made of ordinary characters and the dot: an ordinary character matches a
  character with the same lowercase form, the dot matches every character but the line
  feed. A pattern with any other special character is not interpreted:
  \<open>re_compile\<close> returns \<open>Unmodelled_pattern\<close> for it (the source may raise \<open>re.error\<close>
  there, or match by the operator). The pattern is compiled once, before any row is
  looked at.
\<close>

definition regex_special :: string where
  "regex_special = ''.^$*+?{}[]|()'' @ [CHR 0x5C]"

definition dot :: char where
  "dot = CHR ''.''"

definition re_compile :: "string \<Rightarrow> error + string" where
  "re_compile pat =
     (if list_all (\<lambda>c. c = dot \<or> c \<notin> set regex_special) pat then Inr pat
      else Inl (Unmodelled_pattern pat))"

definition atom_matches :: "char \<Rightarrow> char \<Rightarrow> bool" where
  "atom_matches p c = (if p = dot then c \<noteq> CHR 0x0A else to_lower c = to_lower p)"

fun match_here :: "string \<Rightarrow> string \<Rightarrow> bool" where
  "match_here [] s = True"
| "match_here (p # ps) [] = False"
| "match_here (p # ps) (c # cs) = (atom_matches p c \<and> match_here ps cs)"

fun re_search :: "string \<Rightarrow> string \<Rightarrow> bool" where
  "re_search pat [] = match_here pat []"
| "re_search pat (c # cs) = (match_here pat (c # cs) \<or> re_search pat cs)"

subsection \<open>\<open>astype(str)\<close> on the year column\<close>

fun digits :: "nat \<Rightarrow> string" where
  "digits n =
     (if n < 10 then [char_of (48 + n)]
      else digits (n div 10) @ [char_of (48 + n mod 10)])"

declare digits.simps [simp del]

definition str_int :: "int \<Rightarrow> string" where
  \<comment> \<open>\<open>str\<close> of an integer\<close>
  "str_int i = (if i < 0 then CHR ''-'' # digits (nat (- i)) else digits (nat i))"

subsection \<open>The four filters\<close>

text \<open>
  \<open>if filters[k]:\<close> tests the truth value: a filter is applied when its value is neither
  \<open>None\<close> nor the empty string.
\<close>

definition active :: "string option \<Rightarrow> bool" where
  "active v = (case v of None \<Rightarrow> False | Some s \<Rightarrow> s \<noteq> [])"

definition by_type :: "string option \<Rightarrow> entry list \<Rightarrow> entry list" where
  "by_type v temp =
     (case v of
        Some t \<Rightarrow> if t \<noteq> [] then filter (\<lambda>e. lower (type_col e) = lower t) temp else temp
      | None \<Rightarrow> temp)"

definition by_contains ::
  "(entry \<Rightarrow> string) \<Rightarrow> string option \<Rightarrow> entry list \<Rightarrow> error + entry list" where
  "by_contains col v temp =
     (case v of
        Some pat \<Rightarrow>
          if pat \<noteq> [] then
            (case re_compile pat of
               Inl err \<Rightarrow> Inl err
             | Inr p \<Rightarrow> Inr (filter (\<lambda>e. re_search p (col e)) temp))
          else Inr temp
      | None \<Rightarrow> Inr temp)"

definition by_year :: "string option \<Rightarrow> entry list \<Rightarrow> entry list" where
  "by_year v temp =
     (case v of
        Some y \<Rightarrow> if y \<noteq> [] then filter (\<lambda>e. str_int (release_year e) = y) temp else temp
      | None \<Rightarrow> temp)"

definition filter_data :: "entry list \<Rightarrow> filters \<Rightarrow> error + entry list" where
  \<comment> \<open>\<open>df\<close> is the global data frame; \<open>temp\<close> starts as a copy of it\<close>
  "filter_data df fs =
     (let temp = by_type (f_type fs) df in
      case by_contains country (f_country fs) temp of
        Inl err \<Rightarrow> Inl err
      | Inr temp \<Rightarrow>
          (case by_contains listed_in (f_listed_in fs) temp of
             Inl err \<Rightarrow> Inl err
           | Inr temp \<Rightarrow> Inr (by_year (f_release_year fs) temp)))"

section \<open>\<open>build_prompt\<close>\<close>

definition nl :: string where
  "nl = [CHR 0x0A]"

definition quote :: string where
  "quote = [CHR 0x27]"

definition dquote :: string where
  "dquote = [CHR 0x22]"

definition no_results_text :: string where
  "no_results_text = ''There were no matching results in the Netflix database.''"

definition prompt_head :: "string \<Rightarrow> string" where
  "prompt_head query =
     ''You are a helpful Netflix assistant. User asked: '' @ dquote @ query @ dquote @ ''.'' @ nl @
     ''Based on the database, here are some matching titles:'' @ nl @ nl"

definition item_line :: "entry \<Rightarrow> string" where
  "item_line item =
     ''- **'' @ title_col item @ ''** ('' @ str_int (release_year item) @ ''): '' @
     description item @ nl"

definition prompt_tail :: string where
  "prompt_tail = nl @ ''Give a short natural reply to the user.''"

definition build_prompt :: "string \<Rightarrow> entry list \<Rightarrow> string" where
  "build_prompt query results =
     (if results = [] then ''User asked: '' @ quote @ query @ quote @ nl @ no_results_text
      else
        let top_3 = take 3 results;
            prompt = prompt_head query;
            prompt = fold (\<lambda>item acc. acc @ item_line item) top_3 prompt
        in prompt @ prompt_tail)"

section \<open>\<open>query_mistral\<close>\<close>

text \<open>
  \<open>subprocess.run\<close> is an external collaborator: given the argument list it either
  returns a completed process (exit status and captured standard output; \<open>check\<close> is not
  set, so a non-zero status is no exception) or raises. An exception has a kind and the
  text \<open>str(e)\<close>; the kinds are the timeout, any other subclass of \<open>Exception\<close>, and the
  ones that \<open>except Exception\<close> does not catch (such as \<open>KeyboardInterrupt\<close>).
\<close>

datatype run_result = Completed int string | Raised exc_kind string

definition ollama_args :: "string \<Rightarrow> string list" where
  "ollama_args prompt = [''ollama'', ''run'', ''mistral'', ''--'', prompt]"

definition warning_sign :: string where
  \<comment> \<open>The two code points of the warning emoji (9888, 65039) lie outside the 8-bit
     range; the constant holds their six UTF-8 bytes in their place.\<close>
  "warning_sign = [CHR 0xE2, CHR 0x9A, CHR 0xA0, CHR 0xEF, CHR 0xB8, CHR 0x8F]"

definition failure_text :: "string \<Rightarrow> string \<Rightarrow> string" where
  "failure_text e prompt =
     warning_sign @ '' Mistral call failed:'' @ nl @ nl @ e @ nl @ nl @ ''Prompt was:'' @ nl @ prompt"

definition is_Exception :: "exc_kind \<Rightarrow> bool" where
  "is_Exception k = (k \<noteq> Not_An_Exception)"

definition query_mistral :: "(string list \<Rightarrow> run_result) \<Rightarrow> string \<Rightarrow> error + string" where
  "query_mistral run_proc prompt =
     (case run_proc (ollama_args prompt) of
        Completed returncode stdout \<Rightarrow> Inr (strip stdout)
      | Raised k e \<Rightarrow>
          if is_Exception k then Inr (failure_text e prompt) else Inl (Uncaught k e))"

section \<open>The process and \<open>chat\<close>\<close>

text \<open>
  The globals of the module and the library functions it calls, as one value. The
  collaborators are functions: \<open>nlp\<close> (spaCy), \<open>encode\<close> (the sentence transformer, on
  one text), \<open>cosine_similarity\<close> (of two vectors), \<open>argsort\<close> (\<open>np.argsort\<close>) and
  \<open>subprocess_run\<close>. Similarity scores are values of a linear order. \<open>df\<close> is the data
  frame and \<open>embeddings\<close> the vectors computed from it at load.
\<close>

record ('v, 's) env =
  nlp :: "string \<Rightarrow> doc"
  encode :: "string \<Rightarrow> 'v"
  cosine_similarity :: "'v \<Rightarrow> 'v \<Rightarrow> 's"
  argsort :: "'s list \<Rightarrow> nat list"
  subprocess_run :: "string list \<Rightarrow> run_result"
  df :: "entry list"
  embeddings :: "'v list"

definition text_of :: "entry \<Rightarrow> string" where
  \<comment> \<open>\<open>df["title"] + " " + df["description"]\<close>, one row\<close>
  "text_of e = title_col e @ '' '' @ description e"

definition loaded :: "('v, 's) env \<Rightarrow> bool" where
  \<comment> \<open>the state after the module has run: \<open>embeddings = model.encode(texts.tolist())\<close>\<close>
  "loaded g = (embeddings g = map (encode g) (map text_of (df g)))"

subsection \<open>The semantic fallback\<close>

text \<open>
  \<open>np.argsort\<close> returns the indices that sort its argument in ascending order; its
  default sorting algorithm is not stable, so the order of indices with equal scores is
  not fixed by its contract. \<open>is_argsort xs idx\<close> is the contract; \<open>stable_argsort\<close> is
  the one result that also lists equal scores by ascending index.
\<close>

definition is_argsort :: "('s :: linorder) list \<Rightarrow> nat list \<Rightarrow> bool" where
  "is_argsort xs idx =
     (distinct idx \<and> set idx = {0..<length xs} \<and> sorted (map (\<lambda>i. xs ! i) idx))"

definition stable_argsort :: "('s :: linorder) list \<Rightarrow> nat list" where
  "stable_argsort xs = sort_key (\<lambda>i. xs ! i) [0..<length xs]"

definition last_n :: "nat \<Rightarrow> 'a list \<Rightarrow> 'a list" where
  \<comment> \<open>the slice \<open>[-n:]\<close>, for positive \<open>n\<close>\<close>
  "last_n n xs = drop (length xs - n) xs"

definition iloc :: "entry list \<Rightarrow> nat list \<Rightarrow> error + entry list" where
  "iloc d idx =
     (if list_all (\<lambda>i. i < length d) idx then Inr (map (\<lambda>i. d ! i) idx) else Inl IndexError)"

definition similarities :: "('v, 's) env \<Rightarrow> string \<Rightarrow> 's list" where
  "similarities g query =
     (let query_embed = encode g query
      in map (cosine_similarity g query_embed) (embeddings g))"

definition top_idx :: "('v, 's :: linorder) env \<Rightarrow> string \<Rightarrow> nat list" where
  "top_idx g query =
     (let sims = similarities g query
      in rev (last_n 5 (argsort g sims)))"

definition semantic_fallback :: "('v, 's :: linorder) env \<Rightarrow> string \<Rightarrow> error + entry list" where
  "semantic_fallback g query = iloc (df g) (top_idx g query)"

subsection \<open>\<open>chat\<close>\<close>

text \<open>
  The calls that reach the two models are effects; \<open>chat\<close> threads the list of the calls
  made so far. \<open>retrieve\<close> is the body of \<open>chat\<close> up to the prompt (its locals \<open>filters\<close>,
  \<open>filtered\<close> and \<open>prompt\<close>); \<open>chat\<close> then calls \<open>query_mistral\<close> and returns its reply.
\<close>

datatype call = Encode_call "string list" | Run_call "string list"

record retrieved =
  r_filters :: filters
  r_filtered :: "entry list"
  r_prompt :: string

definition retrieve ::
  "('v, 's :: linorder) env \<Rightarrow> string \<Rightarrow> call list \<Rightarrow> (error + retrieved) \<times> call list" where
  "retrieve g query calls =
     (let fs = extract_filters (nlp g) query in
      case filter_data (df g) fs of
        Inl err \<Rightarrow> (Inl err, calls)
      | Inr filtered \<Rightarrow>
          if filtered = [] then
            (case semantic_fallback g query of
               Inl err \<Rightarrow> (Inl err, calls @ [Encode_call [query]])
             | Inr ranked \<Rightarrow>
                 (Inr \<lparr>r_filters = fs, r_filtered = ranked,
                       r_prompt = build_prompt query ranked\<rparr>,
                  calls @ [Encode_call [query]]))
          else
            (Inr \<lparr>r_filters = fs, r_filtered = filtered,
                  r_prompt = build_prompt query filtered\<rparr>, calls))"

definition chat ::
  "('v, 's :: linorder) env \<Rightarrow> string \<Rightarrow> call list \<Rightarrow> (error + string) \<times> call list" where
  "chat g query calls =
     (case retrieve g query calls of
        (Inl err, calls') \<Rightarrow> (Inl err, calls')
      | (Inr r, calls') \<Rightarrow>
          (query_mistral (subprocess_run g) (r_prompt r),
           calls' @ [Run_call (ollama_args (r_prompt r))]))"

section \<open>Vocabulary of the properties\<close>

text \<open>
  The notions the properties are stated with. A year token is a string of four decimal
  digits whose value lies between 1900 and 2099; \<open>year_at q i\<close> says that a year token
  starts at index \<open>i\<close> of \<open>q\<close> with no word character next to it on either side.
  \<open>stub_nlp\<close> is a pipeline that finds no entity and no token, for concrete instances.
\<close>

definition digit_val :: "char \<Rightarrow> nat" where
  "digit_val c = of_char c - 48"

definition decimal_value :: "string \<Rightarrow> nat" where
  "decimal_value s = foldl (\<lambda>n c. 10 * n + digit_val c) 0 s"

definition year_token :: "string \<Rightarrow> bool" where
  "year_token y =
     (length y = 4 \<and> list_all is_decimal y \<and> 1900 \<le> decimal_value y \<and> decimal_value y \<le> 2099)"

definition year_at :: "string \<Rightarrow> nat \<Rightarrow> bool" where
  "year_at q i =
     (i + 4 \<le> length q \<and> year_token (take 4 (drop i q)) \<and>
      (i = 0 \<or> \<not> is_word (q ! (i - 1))) \<and>
      (i + 4 = length q \<or> \<not> is_word (q ! (i + 4))))"

definition last_opt :: "string \<Rightarrow> char option" where
  "last_opt pre = (if pre = [] then None else Some (last pre))"

definition stub_nlp :: "string \<Rightarrow> doc" where
  "stub_nlp s = \<lparr>ents = [], tokens = []\<rparr>"

text \<open>
  Three catalog rows for concrete instances: the two of the specification's scenarios and
  one more.
\<close>

definition entry_A :: entry where
  "entry_A = \<lparr>title_col = ''A'', description = ''Action flick'', type_col = ''Movie'',
              country = ''USA'', listed_in = ''Action'', release_year = 2010\<rparr>"

definition entry_B :: entry where
  "entry_B = \<lparr>title_col = ''B'', description = ''Drama series'', type_col = ''TV Show'',
              country = ''UK'', listed_in = ''Drama'', release_year = 2015\<rparr>"

definition entry_R :: entry where
  "entry_R = \<lparr>title_col = ''R'', description = ''Spy thriller'', type_col = ''Movie'',
              country = ''Russia'', listed_in = ''Thrillers'', release_year = 2012\<rparr>"

text \<open>
  A filter value is \<open>interpreted\<close> when the model gives its pattern a meaning, and \<open>plain\<close>
  when the pattern has no special character at all. \<open>icontains\<close> is the case-insensitive
  substring test, and \<open>admits fs e\<close> the conjunction of the predicates of the active
  filters, with the substring test for country and genre.
\<close>

definition interpreted :: "string option \<Rightarrow> bool" where
  "interpreted v =
     (case v of None \<Rightarrow> True | Some pat \<Rightarrow> list_all (\<lambda>c. c = dot \<or> c \<notin> set regex_special) pat)"

definition plain :: "string option \<Rightarrow> bool" where
  "plain v = (case v of None \<Rightarrow> True | Some pat \<Rightarrow> list_all (\<lambda>c. c \<notin> set regex_special) pat)"

definition icontains :: "string \<Rightarrow> string \<Rightarrow> bool" where
  "icontains pat s = sublist (lower pat) (lower s)"

definition admits :: "filters \<Rightarrow> entry \<Rightarrow> bool" where
  "admits fs e =
     ((active (f_type fs) \<longrightarrow> lower (type_col e) = lower (the (f_type fs))) \<and>
      (active (f_country fs) \<longrightarrow> icontains (the (f_country fs)) (country e)) \<and>
      (active (f_listed_in fs) \<longrightarrow> icontains (the (f_listed_in fs)) (listed_in e)) \<and>
      (active (f_release_year fs) \<longrightarrow> str_int (release_year e) = the (f_release_year fs)))"

text \<open>
  Two processes for concrete instances. In \<open>six_env\<close> a text is embedded as the code of
  its first character and the score of two vectors is the negated distance; in \<open>tie_env\<close>
  every score is equal. Both sort with \<open>stable_argsort\<close>. \<open>score g query e\<close> is the
  similarity between the query's embedding and the embedding of the row's text.
\<close>

definition first_code :: "string \<Rightarrow> int" where
  "first_code t = (case t of [] \<Rightarrow> 0 | c # _ \<Rightarrow> of_char c)"

definition closeness :: "int \<Rightarrow> int \<Rightarrow> int" where
  "closeness a b = - \<bar>a - b\<bar>"

definition six_env :: "(int, int) env" where
  "six_env =
     \<lparr>nlp = stub_nlp, encode = first_code, cosine_similarity = closeness,
      argsort = stable_argsort, subprocess_run = (\<lambda>args. Completed 0 ''ok''),
      df = [entry_A, entry_B, entry_R, entry_B, entry_A, entry_R],
      embeddings = map first_code (map text_of [entry_A, entry_B, entry_R, entry_B, entry_A, entry_R])\<rparr>"

definition tie_env :: "(unit, nat) env" where
  "tie_env =
     \<lparr>nlp = stub_nlp, encode = (\<lambda>t. ()), cosine_similarity = (\<lambda>a b. 0),
      argsort = stable_argsort, subprocess_run = (\<lambda>args. Completed 0 ''ok''),
      df = [entry_A, entry_B], embeddings = [(), ()]\<rparr>"

definition score :: "('v, 's) env \<Rightarrow> string \<Rightarrow> entry \<Rightarrow> 's" where
  "score g query e = cosine_similarity g (encode g query) (encode g (text_of e))"

section \<open>The year pattern and the type keywords\<close>

lemma char_eq_iff_code: "(c = d) = ((of_char c :: nat) = of_char d)"
  by (metis char_of_char)

lemma year_arith:
  fixes a b c d :: nat
  assumes "a \<le> 9" "b \<le> 9" "c \<le> 9" "d \<le> 9"
  shows "(1900 \<le> 10 * (10 * (10 * a + b) + c) + d \<and> 10 * (10 * (10 * a + b) + c) + d \<le> 2099) =
         (a = 1 \<and> b = 9 \<or> a = 2 \<and> b = 0)"
proof
  assume h: "1900 \<le> 10 * (10 * (10 * a + b) + c) + d \<and> 10 * (10 * (10 * a + b) + c) + d \<le> 2099"
  have e: "10 * (10 * (10 * a + b) + c) + d = 1000 * a + 100 * b + 10 * c + d" by simp
  note h1 = h [THEN conjunct1, unfolded e] and h2 = h [THEN conjunct2, unfolded e]
  have "\<not> 10 * a + b \<le> 18" using h1 assms by linarith
  then have lo: "19 \<le> 10 * a + b" by linarith
  have "\<not> 21 \<le> 10 * a + b" using h2 by linarith
  then have hi: "10 * a + b \<le> 20" by linarith
  have "\<not> a \<le> 0" using lo assms by linarith
  moreover have "\<not> 3 \<le> a" using hi by linarith
  ultimately have "a = 1 \<or> a = 2" by linarith
  then show "a = 1 \<and> b = 9 \<or> a = 2 \<and> b = 0"
  proof
    assume "a = 1" then show ?thesis using lo assms by linarith
  next
    assume "a = 2" then show ?thesis using hi by linarith
  qed
next
  assume "a = 1 \<and> b = 9 \<or> a = 2 \<and> b = 0"
  then show "1900 \<le> 10 * (10 * (10 * a + b) + c) + d \<and> 10 * (10 * (10 * a + b) + c) + d \<le> 2099"
    using assms by auto
qed

lemma is_decimal_word: "is_decimal c \<Longrightarrow> is_word c"
  by (simp add: is_decimal_def is_word_def)

lemma digit_val_le: "is_decimal c \<Longrightarrow> digit_val c \<le> 9"
  by (auto simp: is_decimal_def in_range_def digit_val_def)

lemma digit_val_eq: "is_decimal c \<Longrightarrow> (digit_val c = k) = ((of_char c :: nat) = 48 + k)"
  by (auto simp: is_decimal_def in_range_def digit_val_def)

lemma is_decimal_1: "is_decimal (CHR ''1'')" and is_decimal_9: "is_decimal (CHR ''9'')"
  and is_decimal_2: "is_decimal (CHR ''2'')" and is_decimal_0: "is_decimal (CHR ''0'')"
  by (simp_all add: is_decimal_def in_range_def)

lemma prefix_19_20:
  assumes "is_decimal a" "is_decimal b"
  shows "([a, b] = ''19'' \<or> [a, b] = ''20'') =
         (digit_val a = 1 \<and> digit_val b = 9 \<or> digit_val a = 2 \<and> digit_val b = 0)"
  using assms
  by (simp add: digit_val_eq char_eq_iff_code [of a] char_eq_iff_code [of b])

lemma prefix_decimal:
  assumes "[a, b] = ''19'' \<or> [a, b] = ''20''"
  shows "is_decimal a \<and> is_decimal b"
  using assms is_decimal_1 is_decimal_9 is_decimal_2 is_decimal_0 by auto

lemma year_token_iff:
  "year_token [a, b, c, d] =
     (([a, b] = ''19'' \<or> [a, b] = ''20'') \<and> is_decimal c \<and> is_decimal d)"
proof (cases "is_decimal a \<and> is_decimal b \<and> is_decimal c \<and> is_decimal d")
  case True
  have v: "decimal_value [a, b, c, d] =
           10 * (10 * (10 * digit_val a + digit_val b) + digit_val c) + digit_val d"
    by (simp add: decimal_value_def)
  have "(1900 \<le> decimal_value [a, b, c, d] \<and> decimal_value [a, b, c, d] \<le> 2099) =
        (digit_val a = 1 \<and> digit_val b = 9 \<or> digit_val a = 2 \<and> digit_val b = 0)"
    unfolding v using True by (intro year_arith) (simp_all add: digit_val_le)
  also have "\<dots> = ([a, b] = ''19'' \<or> [a, b] = ''20'')"
    using True by (intro prefix_19_20 [symmetric]) simp_all
  finally show ?thesis using True by (simp add: year_token_def)
next
  case False
  then have "\<not> year_token [a, b, c, d]" by (auto simp: year_token_def)
  moreover have "\<not> (([a, b] = ''19'' \<or> [a, b] = ''20'') \<and> is_decimal c \<and> is_decimal d)"
    using False prefix_decimal by blast
  ultimately show ?thesis by simp
qed


lemma year_match_here_short: "length s < 4 \<Longrightarrow> year_match_here prev s = None"
  by (cases "(prev, s)" rule: year_match_here.cases) simp_all

lemma word_opt_last_opt:
  "word_opt (last_opt pre) = (pre \<noteq> [] \<and> is_word ((pre @ s) ! (length pre - 1)))"
  by (cases pre rule: rev_cases) (simp_all add: word_opt_def last_opt_def nth_append)

lemma word_opt_next_char:
  "word_opt (next_char rest) = (rest \<noteq> [] \<and> is_word (rest ! 0))"
  by (cases rest) (simp_all add: word_opt_def next_char_def)

lemma word_opt_Some: "word_opt (Some x) = is_word x"
  by (simp add: word_opt_def)

lemma year_match_here_year_at:
  "year_match_here (last_opt pre) s =
     (if year_at (pre @ s) (length pre) then Some (take 4 s) else None)"
proof (cases "length s < 4")
  case True
  then show ?thesis by (simp add: year_match_here_short year_at_def)
next
  case False
  then obtain a b c d rest where s: "s = a # b # c # d # rest"
    by (auto simp: not_less numeral_eq_Suc Suc_le_length_iff)
  have w: "([a, b] = ''19'' \<or> [a, b] = ''20'') \<Longrightarrow> is_word a"
    using prefix_decimal [of a b] is_decimal_word by blast
  have e: "(length pre + 4 = length (pre @ s)) = (rest = [])" by (simp add: s)
  have n: "(pre @ s) ! (length pre + 4) = rest ! 0" by (simp add: s nth_append)
  show ?thesis
    unfolding year_at_def e n
    using w is_decimal_word [of d]
    by (auto simp: s year_token_iff boundary_def word_opt_last_opt [of pre s]
        word_opt_next_char word_opt_Some)
qed


lemma last_opt_snoc: "last_opt (pre @ [c]) = Some c"
  by (simp add: last_opt_def)

lemma search_first:
  "year_at (pre @ s) (length pre + i) \<Longrightarrow>
   (\<forall>j<i. \<not> year_at (pre @ s) (length pre + j)) \<Longrightarrow>
   re_search_year_from (last_opt pre) s = Some (take 4 (drop i s))"
proof (induction s arbitrary: pre i)
  case Nil
  then show ?case by (simp add: year_at_def)
next
  case (Cons c cs)
  show ?case
  proof (cases i)
    case 0
    with Cons.prems show ?thesis by (simp add: year_match_here_year_at)
  next
    case (Suc k)
    with Cons.prems have no: "\<not> year_at (pre @ c # cs) (length pre)" by force
    have a: "year_at ((pre @ [c]) @ cs) (length (pre @ [c]) + k)"
      using Cons.prems(1) Suc by simp
    have b: "\<forall>j<k. \<not> year_at ((pre @ [c]) @ cs) (length (pre @ [c]) + j)"
    proof (intro allI impI)
      fix j assume "j < k"
      then have "Suc j < i" using Suc by simp
      with Cons.prems(2) have "\<not> year_at (pre @ c # cs) (length pre + Suc j)" by blast
      then show "\<not> year_at ((pre @ [c]) @ cs) (length (pre @ [c]) + j)" by simp
    qed
    from Cons.IH [OF a b] no show ?thesis
      by (simp add: year_match_here_year_at last_opt_snoc Suc)
  qed
qed

lemma search_none:
  "(\<forall>i. \<not> year_at (pre @ s) (length pre + i)) \<Longrightarrow>
   re_search_year_from (last_opt pre) s = None"
proof (induction s arbitrary: pre)
  case Nil
  then show ?case by simp
next
  case (Cons c cs)
  from Cons.prems have no: "\<not> year_at (pre @ c # cs) (length pre)"
    by (metis add.right_neutral)
  have "\<forall>i. \<not> year_at ((pre @ [c]) @ cs) (length (pre @ [c]) + i)"
  proof
    fix i
    from Cons.prems have "\<not> year_at (pre @ c # cs) (length pre + Suc i)" by blast
    then show "\<not> year_at ((pre @ [c]) @ cs) (length (pre @ [c]) + i)" by simp
  qed
  from Cons.IH [OF this] no show ?case
    by (simp add: year_match_here_year_at last_opt_snoc)
qed

lemma re_search_year_first:
  "year_at q i \<Longrightarrow> (\<forall>j<i. \<not> year_at q j) \<Longrightarrow> re_search_year q = Some (take 4 (drop i q))"
  using search_first [of "[]" q i] by (simp add: re_search_year_def last_opt_def)

lemma re_search_year_none:
  "(\<forall>i. \<not> year_at q i) \<Longrightarrow> re_search_year q = None"
  using search_none [of "[]" q] by (simp add: re_search_year_def last_opt_def)

lemma set_country_keeps:
  "f_release_year (set_country es fs) = f_release_year fs \<and>
   f_type (set_country es fs) = f_type fs"
  unfolding set_country_def by (induction es arbitrary: fs) simp_all

lemma set_genre_keeps:
  "f_release_year (set_genre ts fs) = f_release_year fs \<and>
   f_type (set_genre ts fs) = f_type fs"
  unfolding set_genre_def by (induction ts arbitrary: fs) simp_all

lemma extract_filters_year: "f_release_year (extract_filters n q) = re_search_year q"
  by (simp add: extract_filters_def Let_def set_type_def set_genre_keeps set_country_keeps
      set_year_def no_filters_def split: option.split)

lemma extract_filters_type:
  "f_type (extract_filters n q) =
     (if sublist ''movie'' q then Some ''Movie''
      else if sublist ''show'' q \<or> sublist ''series'' q then Some ''TV Show''
      else None)"
  by (simp add: extract_filters_def Let_def set_type_def set_genre_keeps set_country_keeps
      set_year_def no_filters_def split: option.split)


lemma in_upt: "i < n \<Longrightarrow> i \<in> set [0..<n]"
  by simp

lemma year_at_bound: "year_at q i \<Longrightarrow> i < length q"
  by (simp add: year_at_def)

text \<open>
  Claim C4, as the code has it: when a year token delimited by word boundaries starts at
  index \<open>i\<close> of the query and none starts before \<open>i\<close>, \<open>release_year\<close> is that token;
  when the query holds no delimited year token, \<open>release_year\<close> stays \<open>None\<close>.
\<close>

theorem extract_filters_release_year:
  "(year_at q i \<and> (\<forall>j<i. \<not> year_at q j) \<longrightarrow>
      f_release_year (extract_filters n q) = Some (take 4 (drop i q))) \<and>
   ((\<forall>i. \<not> year_at q i) \<longrightarrow> f_release_year (extract_filters n q) = None)"
  by (simp add: extract_filters_year re_search_year_first re_search_year_none)

theorem extract_filters_release_year_witness:
  "year_at ''in 2015, 1999'' 3 \<and>
   f_release_year (extract_filters stub_nlp ''in 2015, 1999'') = Some ''2015'' \<and>
   f_release_year (extract_filters stub_nlp ''none here'') = None"
proof -
  have a: "year_at ''in 2015, 1999'' 3" by code_simp
  have "list_all (\<lambda>j. \<not> year_at ''in 2015, 1999'' j) [0..<3]" by code_simp
  then have b: "\<forall>j<3. \<not> year_at ''in 2015, 1999'' j" by (simp add: list_all_iff)
  have "list_all (\<lambda>j. \<not> year_at ''none here'' j) [0..<length ''none here'']" by code_simp
  then have c0: "\<forall>j \<in> set [0..<length ''none here'']. \<not> year_at ''none here'' j"
    unfolding list_all_iff .
  have c: "\<forall>i. \<not> year_at ''none here'' i"
  proof (intro allI notI)
    fix i assume h: "year_at ''none here'' i"
    then have "i < length ''none here''" by (rule year_at_bound)
    then have "i \<in> set [0..<length ''none here'']" by (rule in_upt)
    with c0 h show False by blast
  qed
  have t: "take 4 (drop 3 ''in 2015, 1999'') = ''2015''" by simp
  show ?thesis
    using extract_filters_release_year [of "''in 2015, 1999''" 3 stub_nlp]
      extract_filters_release_year [of "''none here''" 0 stub_nlp] a b c t
    by simp
qed

text \<open>
  The query \<open>a2015\<close> contains the four-digit substring 2015, and the extractor leaves
  \<open>release_year\<close> unset: the letter before the digits is a word character, so the
  pattern's \<open>\b\<close> does not hold there.
\<close>

theorem release_year_substring_counterexample:
  "sublist ''2015'' ''a2015'' \<and> year_token ''2015'' \<and>
   f_release_year (extract_filters stub_nlp ''a2015'') = None"
proof -
  have "sublist ''2015'' ([CHR ''a''] @ ''2015'' @ [])" by (rule sublist_appendI)
  then have a: "sublist ''2015'' ''a2015''" by simp
  have b: "year_token ''2015''" by code_simp
  have "re_search_year ''a2015'' = None" by code_simp
  then show ?thesis using a b by (simp add: extract_filters_year)
qed

text \<open>
  Claim C2, at the query \<open>Movie night\<close>: its lowercased form contains \<open>movie\<close>, and
  \<open>extract_filters\<close> leaves \<open>type\<close> unset, for every pipeline \<open>n\<close>. The keyword tests
  read the query as typed (\<open>extract_filters_type\<close>).
\<close>

theorem extract_filters_type_capitalised:
  "sublist ''movie'' (lower ''Movie night'') \<and> f_type (extract_filters n ''Movie night'') = None"
proof -
  have l: "lower ''Movie night'' = ''movie night''" by code_simp
  have "sublist ''movie'' ([] @ ''movie'' @ '' night'')" by (rule sublist_appendI)
  then have a: "sublist ''movie'' (lower ''Movie night'')" by (simp add: l)
  have b: "\<not> sublist ''movie'' ''Movie night''" by code_simp
  have c: "\<not> sublist ''show'' ''Movie night''" by code_simp
  have d: "\<not> sublist ''series'' ''Movie night''" by code_simp
  show ?thesis using a b c d by (simp add: extract_filters_type)
qed

section \<open>The reply and the prompt\<close>

lemma sublist_mid: "sublist x (a @ x @ b)"
  by (rule sublist_appendI)

lemma failure_text_has_error: "sublist e (failure_text e p)"
proof -
  have "failure_text e p =
        (warning_sign @ '' Mistral call failed:'' @ nl @ nl) @ e @ (nl @ nl @ ''Prompt was:'' @ nl @ p)"
    by (simp add: failure_text_def)
  then show ?thesis by (simp only: sublist_mid)
qed

lemma failure_text_has_prompt: "sublist p (failure_text e p)"
proof -
  have "failure_text e p =
        (warning_sign @ '' Mistral call failed:'' @ nl @ nl @ e @ nl @ nl @ ''Prompt was:'' @ nl) @ p @ []"
    by (simp add: failure_text_def)
  then show ?thesis by (simp only: sublist_mid)
qed

text \<open>
  Claim C3, as the code has it: when the external call raises a timeout or any other
  \<open>Exception\<close>, \<open>query_mistral\<close> returns the diagnostic text, which contains the error
  text and the prompt; when the call completes, with any exit status, \<open>query_mistral\<close>
  returns a reply and raises nothing; when it completes with exit status 0, the reply is
  the standard output with the surrounding whitespace stripped.
\<close>

theorem query_mistral_recovers:
  "(run_proc (ollama_args p) = Raised k e \<and> is_Exception k \<longrightarrow>
      query_mistral run_proc p = Inr (failure_text e p) \<and>
      sublist e (failure_text e p) \<and> sublist p (failure_text e p)) \<and>
   (run_proc (ollama_args p) = Completed rc out \<longrightarrow>
      (\<exists>reply. query_mistral run_proc p = Inr reply) \<and>
      (rc = 0 \<longrightarrow> query_mistral run_proc p = Inr (strip out)))"
  by (simp add: query_mistral_def failure_text_has_error failure_text_has_prompt)

theorem query_mistral_recovers_witness:
  "query_mistral (\<lambda>args. Raised TimeoutExpired ''timed out'') ''hi'' =
     Inr (failure_text ''timed out'' ''hi'') \<and>
   sublist ''timed out'' (failure_text ''timed out'' ''hi'') \<and>
   sublist ''hi'' (failure_text ''timed out'' ''hi'') \<and>
   query_mistral (\<lambda>args. Completed 0 (''Try Dark.'' @ nl)) ''hi'' = Inr ''Try Dark.''"
proof -
  have s: "strip (''Try Dark.'' @ nl) = ''Try Dark.''" by code_simp
  have k: "is_Exception TimeoutExpired" by (simp add: is_Exception_def)
  show ?thesis
    using query_mistral_recovers [of "\<lambda>args. Raised TimeoutExpired ''timed out''" "''hi''"
        TimeoutExpired "''timed out''" 0 "[]"]
      query_mistral_recovers [of "\<lambda>args. Completed 0 (''Try Dark.'' @ nl)" "''hi''"
        TimeoutExpired "[]" 0 "''Try Dark.'' @ nl"] s k
    by simp
qed

text \<open>
  With exit status 1 and empty output the reply is the empty string, which holds neither
  an error nor the prompt; with exit status 0 the reply is the output without its final
  line feed, not the raw output.
\<close>

theorem query_mistral_counterexample:
  "query_mistral (\<lambda>args. Completed 1 []) ''hi'' = Inr [] \<and>
   \<not> sublist ''hi'' [] \<and>
   query_mistral (\<lambda>args. Completed 0 (''ok'' @ nl)) ''hi'' = Inr ''ok'' \<and>
   ''ok'' \<noteq> ''ok'' @ nl"
proof -
  have a: "strip [] = []" by code_simp
  have b: "strip (''ok'' @ nl) = ''ok''" by code_simp
  have c: "''ok'' \<noteq> ''ok'' @ nl" by (simp add: nl_def)
  show ?thesis using a b c by (simp add: query_mistral_def)
qed

lemma no_results_has_phrase: "sublist ''no matching results'' (build_prompt q [])"
proof -
  have "build_prompt q [] =
        (''User asked: '' @ quote @ q @ quote @ nl @ ''There were '') @ ''no matching results'' @
        '' in the Netflix database.''"
    by (simp add: build_prompt_def no_results_text_def)
  then show ?thesis by (simp only: sublist_mid)
qed

lemma no_results_has_query: "sublist q (build_prompt q [])"
proof -
  have "build_prompt q [] = (''User asked: '' @ quote) @ q @ (quote @ nl @ no_results_text)"
    by (simp add: build_prompt_def)
  then show ?thesis by (simp only: sublist_mid)
qed

lemma build_prompt_top_3:
  assumes "3 < length rs"
  shows "build_prompt q rs =
         prompt_head q @ item_line (rs ! 0) @ item_line (rs ! 1) @ item_line (rs ! 2) @ prompt_tail"
proof -
  from assms have "\<not> length rs < 4" by simp
  then obtain a b c d rest where rs: "rs = a # b # c # d # rest"
    by (auto simp: not_less numeral_eq_Suc Suc_le_length_iff)
  show ?thesis by (simp add: rs build_prompt_def)
qed

text \<open>
  Claim C9: for an empty result set the prompt is the no-results message, which contains
  the words \<open>no matching results\<close> and the query; for more than three results the prompt
  is the head, the bullet lines of the first three entries in order, and the tail; a
  bullet line holds the title (between bold markers), the year in parentheses, a colon
  and the description.
\<close>

theorem build_prompt_shape:
  "build_prompt q [] = ''User asked: '' @ quote @ q @ quote @ nl @ no_results_text \<and>
   sublist ''no matching results'' (build_prompt q []) \<and>
   sublist q (build_prompt q []) \<and>
   (3 < length rs \<longrightarrow>
      build_prompt q rs =
        prompt_head q @ item_line (rs ! 0) @ item_line (rs ! 1) @ item_line (rs ! 2) @
        prompt_tail) \<and>
   item_line e =
     ''- **'' @ title_col e @ ''** ('' @ str_int (release_year e) @ ''): '' @ description e @ nl"
  using no_results_has_phrase no_results_has_query build_prompt_top_3
  by (simp add: build_prompt_def item_line_def)

theorem build_prompt_shape_witness:
  "build_prompt ''q'' [entry_A, entry_B, entry_R, entry_A] =
     prompt_head ''q'' @ item_line entry_A @ item_line entry_B @ item_line entry_R @ prompt_tail \<and>
   sublist ''no matching results'' (build_prompt ''q'' [])"
proof -
  let ?rs = "[entry_A, entry_B, entry_R, entry_A]"
  have n: "?rs ! 0 = entry_A" "?rs ! 1 = entry_B" "?rs ! 2 = entry_R" by simp_all
  have "3 < length ?rs" by simp
  with build_prompt_shape [of "''q''" ?rs entry_A]
  have "build_prompt ''q'' ?rs =
          prompt_head ''q'' @ item_line (?rs ! 0) @ item_line (?rs ! 1) @ item_line (?rs ! 2) @
          prompt_tail"
    and "sublist ''no matching results'' (build_prompt ''q'' [])"
    by blast+
  then show ?thesis by (simp only: n simp_thms)
qed

section \<open>The structured filter\<close>

lemma by_type_filter:
  "by_type v temp = filter (\<lambda>e. active v \<longrightarrow> lower (type_col e) = lower (the v)) temp"
  by (simp add: by_type_def active_def split: option.split)

lemma by_year_filter:
  "by_year v temp = filter (\<lambda>e. active v \<longrightarrow> str_int (release_year e) = the v) temp"
  by (simp add: by_year_def active_def split: option.split)

lemma by_contains_interpreted:
  "interpreted v \<Longrightarrow>
   by_contains col v temp = Inr (filter (\<lambda>e. active v \<longrightarrow> re_search (the v) (col e)) temp)"
  by (cases v) (simp_all add: by_contains_def interpreted_def re_compile_def active_def)

lemma by_contains_subseq: "by_contains col v temp = Inr r \<Longrightarrow> subseq r temp"
  by (auto simp: by_contains_def re_compile_def split: option.splits if_splits)

lemma by_contains_inactive: "\<not> active v \<Longrightarrow> by_contains col v temp = Inr temp"
  by (cases v) (simp_all add: by_contains_def active_def)

lemma plain_not_dot: "list_all (\<lambda>c. c \<notin> set regex_special) pat \<Longrightarrow> p \<in> set pat \<Longrightarrow> p \<noteq> dot"
  by (auto simp: list_all_iff regex_special_def dot_def)

lemma match_here_plain:
  "list_all (\<lambda>c. c \<notin> set regex_special) pat \<Longrightarrow>
   match_here pat s = prefix (lower pat) (lower s)"
proof (induction pat s rule: match_here.induct)
  case (3 p ps c cs)
  have "p \<noteq> dot" using "3.prems" plain_not_dot [of "p # ps" p] by simp
  with 3 show ?case by (auto simp: atom_matches_def lower_def)
qed (simp_all add: lower_def)

lemma re_search_plain:
  "list_all (\<lambda>c. c \<notin> set regex_special) pat \<Longrightarrow> re_search pat s = icontains pat s"
proof (induction s)
  case Nil
  then show ?case by (cases pat) (simp_all add: icontains_def lower_def)
next
  case (Cons c cs)
  then show ?case
    by (simp add: match_here_plain icontains_def lower_def sublist_Cons_right)
qed

lemma plain_interpreted: "plain v \<Longrightarrow> interpreted v"
  by (auto simp: plain_def interpreted_def list_all_iff split: option.splits)

lemma filter_data_plain:
  assumes "plain (f_country fs)" "plain (f_listed_in fs)"
  shows "filter_data d fs = Inr (filter (admits fs) d)"
proof -
  have c: "active (f_country fs) \<Longrightarrow>
           re_search (the (f_country fs)) s = icontains (the (f_country fs)) s" for s
    using assms(1) by (auto simp: plain_def active_def re_search_plain split: option.splits)
  have g: "active (f_listed_in fs) \<Longrightarrow>
           re_search (the (f_listed_in fs)) s = icontains (the (f_listed_in fs)) s" for s
    using assms(2) by (auto simp: plain_def active_def re_search_plain split: option.splits)
  show ?thesis
    using assms c g
    by (auto simp: filter_data_def Let_def by_contains_interpreted plain_interpreted
        by_type_filter by_year_filter admits_def intro!: filter_cong)
qed

lemma filter_data_subseq: "filter_data d fs = Inr r \<Longrightarrow> subseq r d"
proof -
  assume h: "filter_data d fs = Inr r"
  then obtain t1 t2 where
    a: "by_contains country (f_country fs) (by_type (f_type fs) d) = Inr t1" and
    b: "by_contains listed_in (f_listed_in fs) t1 = Inr t2" and
    c: "r = by_year (f_release_year fs) t2"
    by (auto simp: filter_data_def Let_def split: sum.splits)
  have "subseq (by_type (f_type fs) d) d" by (simp add: by_type_filter)
  moreover have "subseq t1 (by_type (f_type fs) d)" using a by (rule by_contains_subseq)
  moreover have "subseq t2 t1" using b by (rule by_contains_subseq)
  moreover have "subseq r t2" by (simp add: c by_year_filter)
  ultimately show ?thesis by (meson subseq_order.trans)
qed

lemma filter_data_inactive:
  "\<not> active (f_type fs) \<Longrightarrow> \<not> active (f_country fs) \<Longrightarrow> \<not> active (f_listed_in fs) \<Longrightarrow>
   \<not> active (f_release_year fs) \<Longrightarrow> filter_data d fs = Inr d"
  by (simp add: filter_data_def Let_def by_contains_inactive by_type_filter by_year_filter)

lemma filter_data_returns:
  "interpreted (f_country fs) \<Longrightarrow> interpreted (f_listed_in fs) \<Longrightarrow> \<exists>r. filter_data d fs = Inr r"
  by (simp add: filter_data_def Let_def by_contains_interpreted)


text \<open>
  Claim C8: with no active filter, and so with all four fields \<open>None\<close>, \<open>filter_data\<close>
  returns the catalog itself; every result it returns is a subsequence of the catalog, in
  catalog order; and it does return when the country and genre patterns are interpreted.
\<close>

theorem filter_data_ordered_subset:
  "(\<not> active (f_type fs) \<and> \<not> active (f_country fs) \<and> \<not> active (f_listed_in fs) \<and>
    \<not> active (f_release_year fs) \<longrightarrow> filter_data d fs = Inr d) \<and>
   filter_data d no_filters = Inr d \<and>
   (\<forall>r. filter_data d fs = Inr r \<longrightarrow> subseq r d) \<and>
   (interpreted (f_country fs) \<and> interpreted (f_listed_in fs) \<longrightarrow>
      (\<exists>r. filter_data d fs = Inr r))"
proof -
  have "filter_data d no_filters = Inr d"
    by (rule filter_data_inactive) (simp_all add: no_filters_def active_def)
  then show ?thesis
    using filter_data_inactive [of fs d] filter_data_subseq [of d fs]
      filter_data_returns [of fs d]
    by blast
qed

theorem filter_data_ordered_subset_witness:
  "filter_data [entry_A, entry_B] (no_filters\<lparr>f_type := Some ''TV Show''\<rparr>) = Inr [entry_B] \<and>
   subseq [entry_B] [entry_A, entry_B] \<and>
   filter_data [entry_A, entry_B] no_filters = Inr [entry_A, entry_B]"
proof -
  have e: "filter_data [entry_A, entry_B] (no_filters\<lparr>f_type := Some ''TV Show''\<rparr>) = Inr [entry_B]"
    by code_simp
  show ?thesis
    using filter_data_ordered_subset
      [of "no_filters\<lparr>f_type := Some ''TV Show''\<rparr>" "[entry_A, entry_B]"] e
    by simp
qed

text \<open>
  Claim C7, at the country filter \<open>U.S.\<close> and a catalog whose one row has country
  \<open>Russia\<close>: the row is returned, although \<open>u.s.\<close> is no substring of \<open>russia\<close>. The
  pattern is searched as a regular expression, where the dots match any character. For
  plain patterns the result is the conjunction of the claim (\<open>filter_data_plain\<close>).
\<close>

theorem filter_data_country_regex:
  "filter_data [entry_R] (no_filters\<lparr>f_country := Some ''U.S.''\<rparr>) = Inr [entry_R] \<and>
   \<not> icontains ''U.S.'' (country entry_R)"
proof -
  have a: "filter_data [entry_R] (no_filters\<lparr>f_country := Some ''U.S.''\<rparr>) = Inr [entry_R]"
    by code_simp
  have b: "\<not> icontains ''U.S.'' (country entry_R)" by code_simp
  show ?thesis using a b by simp
qed

section \<open>The semantic fallback\<close>

lemma insort_key_ties:
  fixes f :: "nat \<Rightarrow> 's :: linorder"
  assumes "sorted_wrt (\<lambda>a b. f a = f b \<longrightarrow> a < b) ys" "\<forall>y \<in> set ys. f x = f y \<longrightarrow> x < y"
  shows "sorted_wrt (\<lambda>a b. f a = f b \<longrightarrow> a < b) (insort_key f x ys)"
  using assms
proof (induction ys)
  case Nil
  then show ?case by simp
next
  case (Cons y ys)
  show ?case
  proof (cases "f x \<le> f y")
    case True
    with Cons.prems show ?thesis by simp
  next
    case False
    have "sorted_wrt (\<lambda>a b. f a = f b \<longrightarrow> a < b) (insort_key f x ys)"
      using Cons by simp
    moreover have "\<forall>z \<in> set (insort_key f x ys). f y = f z \<longrightarrow> y < z"
      using Cons.prems(1) False by (auto simp: set_insort_key)
    ultimately show ?thesis using False by simp
  qed
qed

lemma sort_key_ties:
  fixes f :: "nat \<Rightarrow> 's :: linorder"
  shows "sorted_wrt (<) xs \<Longrightarrow> sorted_wrt (\<lambda>a b. f a = f b \<longrightarrow> a < b) (sort_key f xs)"
proof (induction xs)
  case Nil
  then show ?case by simp
next
  case (Cons x xs)
  then show ?case by (simp add: insort_key_ties)
qed

lemma stable_argsort_ties:
  "sorted_wrt (\<lambda>a b. xs ! a = xs ! b \<longrightarrow> a < b) (stable_argsort xs)"
  unfolding stable_argsort_def by (rule sort_key_ties) simp

lemma stable_argsort_is_argsort: "is_argsort xs (stable_argsort xs)"
  by (simp add: is_argsort_def stable_argsort_def)

lemma length_similarities: "loaded g \<Longrightarrow> length (similarities g q) = length (df g)"
  by (simp add: similarities_def loaded_def Let_def)

lemma similarities_nth:
  "loaded g \<Longrightarrow> i < length (df g) \<Longrightarrow> similarities g q ! i = score g q (df g ! i)"
  by (simp add: similarities_def loaded_def Let_def score_def)

lemma is_argsort_length: "is_argsort xs idx \<Longrightarrow> length idx = length xs"
  by (metis is_argsort_def distinct_card card_atLeastLessThan diff_zero)

lemma set_top_idx:
  assumes "is_argsort (similarities g q) (argsort g (similarities g q))"
  shows "set (top_idx g q) \<subseteq> {0..<length (similarities g q)}"
  using assms set_drop_subset [of _ "argsort g (similarities g q)"]
  by (auto simp: top_idx_def Let_def last_n_def is_argsort_def)

lemma length_top_idx:
  assumes "is_argsort (similarities g q) (argsort g (similarities g q))"
  shows "length (top_idx g q) = min 5 (length (similarities g q))"
  using is_argsort_length [OF assms] by (auto simp: top_idx_def Let_def last_n_def)

lemma top_idx_descending:
  assumes "is_argsort (similarities g q) (argsort g (similarities g q))"
  shows "sorted_wrt (\<lambda>i j. similarities g q ! j \<le> similarities g q ! i) (top_idx g q)"
proof -
  have "sorted_wrt (\<lambda>i j. similarities g q ! i \<le> similarities g q ! j)
          (argsort g (similarities g q))"
    using assms by (simp add: is_argsort_def sorted_wrt_map)
  then have "sorted_wrt (\<lambda>i j. similarities g q ! i \<le> similarities g q ! j)
          (last_n 5 (argsort g (similarities g q)))"
    unfolding last_n_def by (rule sorted_wrt_drop)
  then show ?thesis by (simp add: top_idx_def Let_def sorted_wrt_rev)
qed

lemma semantic_fallback_rows:
  assumes "loaded g" "is_argsort (similarities g q) (argsort g (similarities g q))"
  shows "semantic_fallback g q = Inr (map (\<lambda>i. df g ! i) (top_idx g q))"
  using set_top_idx [OF assms(2)] length_similarities [OF assms(1), of q]
  by (auto simp: semantic_fallback_def iloc_def list_all_iff)


text \<open>
  Claim C5: in a loaded process whose \<open>argsort\<close> meets its contract on the similarity
  scores, the fallback returns exactly \<open>min 5 (length df)\<close> rows, ordered by
  non-increasing similarity to the query.
\<close>

theorem semantic_fallback_top_5:
  "loaded g \<and> is_argsort (similarities g q) (argsort g (similarities g q)) \<longrightarrow>
   (\<exists>rs. semantic_fallback g q = Inr rs \<and> length rs = min 5 (length (df g)) \<and>
         sorted_wrt (\<lambda>a b. score g q b \<le> score g q a) rs)"
proof (intro impI, elim conjE)
  assume l: "loaded g" and a: "is_argsort (similarities g q) (argsort g (similarities g q))"
  let ?rs = "map (\<lambda>i. df g ! i) (top_idx g q)"
  have n: "length (similarities g q) = length (df g)" using l by (rule length_similarities)
  have 1: "semantic_fallback g q = Inr ?rs" using l a by (rule semantic_fallback_rows)
  have 2: "length ?rs = min 5 (length (df g))" using length_top_idx [OF a] n by simp
  have "sorted_wrt (\<lambda>i j. score g q (df g ! j) \<le> score g q (df g ! i)) (top_idx g q)"
  proof (rule sorted_wrt_mono_rel [OF _ top_idx_descending [OF a]])
    fix i j assume "i \<in> set (top_idx g q)" "j \<in> set (top_idx g q)"
      and "similarities g q ! j \<le> similarities g q ! i"
    moreover from this have "i < length (df g)" "j < length (df g)"
      using set_top_idx [OF a] n by auto
    ultimately show "score g q (df g ! j) \<le> score g q (df g ! i)"
      using l by (simp add: similarities_nth)
  qed
  then have 3: "sorted_wrt (\<lambda>a b. score g q b \<le> score g q a) ?rs"
    by (simp add: sorted_wrt_map)
  from 1 2 3 show "\<exists>rs. semantic_fallback g q = Inr rs \<and> length rs = min 5 (length (df g)) \<and>
         sorted_wrt (\<lambda>a b. score g q b \<le> score g q a) rs" by blast
qed

lemma six_env_loaded: "loaded six_env"
  by (simp add: loaded_def six_env_def)

lemma six_env_argsort: "argsort six_env xs = stable_argsort xs"
  by (simp add: six_env_def)

theorem semantic_fallback_top_5_witness:
  "semantic_fallback six_env ''Find a 1999 comedy'' =
     Inr [entry_B, entry_B, entry_A, entry_A, entry_R] \<and>
   (\<exists>rs. semantic_fallback six_env ''Find a 1999 comedy'' = Inr rs \<and>
      length rs = min 5 (length (df six_env)) \<and>
      sorted_wrt (\<lambda>a b. score six_env ''Find a 1999 comedy'' b \<le>
                        score six_env ''Find a 1999 comedy'' a) rs)"
proof -
  have e: "semantic_fallback six_env ''Find a 1999 comedy'' =
     Inr [entry_B, entry_B, entry_A, entry_A, entry_R]" by code_simp
  have a: "is_argsort (similarities six_env ''Find a 1999 comedy'')
             (argsort six_env (similarities six_env ''Find a 1999 comedy''))"
    by (simp only: six_env_argsort stable_argsort_is_argsort)
  show ?thesis
    using semantic_fallback_top_5 [of six_env "''Find a 1999 comedy''"] six_env_loaded a e
    by blast
qed

text \<open>
  Claim C1, as the code has it: when \<open>argsort\<close> lists equal scores by ascending index (a
  stable sort), the reversal puts, of two returned rows with equal similarity, the one
  with the higher catalog index first.
\<close>

theorem fallback_ties_stable:
  "loaded g \<and> argsort g (similarities g q) = stable_argsort (similarities g q) \<longrightarrow>
   semantic_fallback g q = Inr (map (\<lambda>i. df g ! i) (top_idx g q)) \<and>
   (\<forall>i j. i < j \<and> j < length (top_idx g q) \<and>
          similarities g q ! (top_idx g q ! i) = similarities g q ! (top_idx g q ! j) \<longrightarrow>
          top_idx g q ! j < top_idx g q ! i)"
proof (intro impI, elim conjE)
  assume l: "loaded g"
    and s: "argsort g (similarities g q) = stable_argsort (similarities g q)"
  have a: "is_argsort (similarities g q) (argsort g (similarities g q))"
    by (simp only: s stable_argsort_is_argsort)
  have "sorted_wrt (\<lambda>a b. similarities g q ! a = similarities g q ! b \<longrightarrow> a < b)
          (last_n 5 (argsort g (similarities g q)))"
    unfolding last_n_def s by (rule sorted_wrt_drop [OF stable_argsort_ties])
  then have "sorted_wrt (\<lambda>a b. similarities g q ! b = similarities g q ! a \<longrightarrow> b < a)
          (top_idx g q)"
    by (simp add: top_idx_def Let_def sorted_wrt_rev)
  then have "\<forall>i j. i < j \<and> j < length (top_idx g q) \<and>
          similarities g q ! (top_idx g q ! i) = similarities g q ! (top_idx g q ! j) \<longrightarrow>
          top_idx g q ! j < top_idx g q ! i"
    by (simp add: sorted_wrt_iff_nth_less)
  with semantic_fallback_rows [OF l a]
  show "semantic_fallback g q = Inr (map (\<lambda>i. df g ! i) (top_idx g q)) \<and>
   (\<forall>i j. i < j \<and> j < length (top_idx g q) \<and>
          similarities g q ! (top_idx g q ! i) = similarities g q ! (top_idx g q ! j) \<longrightarrow>
          top_idx g q ! j < top_idx g q ! i)" by blast
qed

theorem fallback_ties_stable_witness:
  "top_idx six_env ''Find a 1999 comedy'' = [3, 1, 4, 0, 5] \<and>
   similarities six_env ''Find a 1999 comedy'' ! 3 = similarities six_env ''Find a 1999 comedy'' ! 1 \<and>
   semantic_fallback six_env ''Find a 1999 comedy'' =
     Inr (map (\<lambda>i. df six_env ! i) (top_idx six_env ''Find a 1999 comedy''))"
proof -
  have t: "top_idx six_env ''Find a 1999 comedy'' = [3, 1, 4, 0, 5]" by code_simp
  have e: "similarities six_env ''Find a 1999 comedy'' ! 3 =
           similarities six_env ''Find a 1999 comedy'' ! 1" by code_simp
  show ?thesis
    using fallback_ties_stable [of six_env "''Find a 1999 comedy''"] six_env_loaded
      six_env_argsort t e
    by blast
qed

text \<open>
  In a catalog of two rows with equal scores, the fallback returns the row of index 1
  before the row of index 0.
\<close>

theorem fallback_ties_counterexample:
  "loaded tie_env \<and> df tie_env = [entry_A, entry_B] \<and>
   is_argsort (similarities tie_env ''Find a 1999 comedy'')
     (argsort tie_env (similarities tie_env ''Find a 1999 comedy'')) \<and>
   score tie_env ''Find a 1999 comedy'' entry_A = score tie_env ''Find a 1999 comedy'' entry_B \<and>
   semantic_fallback tie_env ''Find a 1999 comedy'' = Inr [entry_B, entry_A] \<and>
   entry_A \<noteq> entry_B"
proof -
  have a: "argsort tie_env xs = stable_argsort xs" for xs by (simp add: tie_env_def)
  have b: "semantic_fallback tie_env ''Find a 1999 comedy'' = Inr [entry_B, entry_A]"
    by code_simp
  have c: "entry_A \<noteq> entry_B" by (simp add: entry_A_def entry_B_def)
  show ?thesis
    using b c
    by (simp add: a stable_argsort_is_argsort) (simp add: tie_env_def loaded_def score_def)
qed

section \<open>The orchestration\<close>

lemma retrieve_nonempty:
  "filter_data (df g) (extract_filters (nlp g) q) = Inr filtered \<Longrightarrow> filtered \<noteq> [] \<Longrightarrow>
   retrieve g q calls =
     (Inr \<lparr>r_filters = extract_filters (nlp g) q, r_filtered = filtered,
           r_prompt = build_prompt q filtered\<rparr>, calls)"
  by (simp add: retrieve_def Let_def)

lemma retrieve_empty_calls:
  "filter_data (df g) (extract_filters (nlp g) q) = Inr [] \<Longrightarrow>
   snd (retrieve g q calls) = calls @ [Encode_call [q]]"
  by (simp add: retrieve_def Let_def split: sum.split)

lemma retrieve_empty_ranked:
  "filter_data (df g) (extract_filters (nlp g) q) = Inr [] \<Longrightarrow>
   semantic_fallback g q = Inr ranked \<Longrightarrow>
   fst (retrieve g q calls) =
     Inr \<lparr>r_filters = extract_filters (nlp g) q, r_filtered = ranked,
          r_prompt = build_prompt q ranked\<rparr>"
  by (simp add: retrieve_def Let_def)

lemma chat_nonempty:
  "filter_data (df g) (extract_filters (nlp g) q) = Inr filtered \<Longrightarrow> filtered \<noteq> [] \<Longrightarrow>
   chat g q calls =
     (query_mistral (subprocess_run g) (build_prompt q filtered),
      calls @ [Run_call (ollama_args (build_prompt q filtered))])"
  by (simp add: chat_def retrieve_nonempty)

lemma chat_empty_encodes:
  "filter_data (df g) (extract_filters (nlp g) q) = Inr [] \<Longrightarrow>
   Encode_call [q] \<in> set (snd (chat g q calls))"
  using retrieve_empty_calls [of g q calls]
  by (cases "retrieve g q calls") (auto simp: chat_def split: sum.splits)

text \<open>
  Claim C6: when the structured filter returns \<open>filtered\<close>, a run of \<open>chat\<close> calls the
  embedding model on the query if and only if \<open>filtered\<close> is empty. When it is not empty,
  the only call is the generator's, with the prompt built from exactly \<open>filtered\<close>; when
  it is empty and the ranking returns \<open>ranked\<close>, the query is embedded and the prompt is
  built from \<open>ranked\<close>.
\<close>

theorem chat_fallback_only_when_empty:
  "filter_data (df g) (extract_filters (nlp g) q) = Inr filtered \<longrightarrow>
     (Encode_call [q] \<in> set (snd (chat g q [])) \<longleftrightarrow> filtered = []) \<and>
     (filtered \<noteq> [] \<longrightarrow>
        chat g q [] =
          (query_mistral (subprocess_run g) (build_prompt q filtered),
           [Run_call (ollama_args (build_prompt q filtered))])) \<and>
     (filtered = [] \<longrightarrow>
        (\<forall>ranked. semantic_fallback g q = Inr ranked \<longrightarrow>
           chat g q [] =
             (query_mistral (subprocess_run g) (build_prompt q ranked),
              [Encode_call [q], Run_call (ollama_args (build_prompt q ranked))])))"
proof (intro impI)
  assume f: "filter_data (df g) (extract_filters (nlp g) q) = Inr filtered"
  have 1: "Encode_call [q] \<in> set (snd (chat g q [])) \<longleftrightarrow> filtered = []"
  proof (cases "filtered = []")
    case True
    with f chat_empty_encodes [of g q "[]"] show ?thesis by simp
  next
    case False
    with f chat_nonempty [of g q filtered "[]"] show ?thesis by simp
  qed
  have 2: "filtered \<noteq> [] \<longrightarrow>
        chat g q [] =
          (query_mistral (subprocess_run g) (build_prompt q filtered),
           [Run_call (ollama_args (build_prompt q filtered))])"
    using f chat_nonempty [of g q filtered "[]"] by simp
  have 3: "filtered = [] \<longrightarrow>
        (\<forall>ranked. semantic_fallback g q = Inr ranked \<longrightarrow>
           chat g q [] =
             (query_mistral (subprocess_run g) (build_prompt q ranked),
              [Encode_call [q], Run_call (ollama_args (build_prompt q ranked))]))"
    using f by (simp add: chat_def retrieve_def Let_def)
  from 1 2 3 show "(Encode_call [q] \<in> set (snd (chat g q [])) \<longleftrightarrow> filtered = []) \<and>
     (filtered \<noteq> [] \<longrightarrow>
        chat g q [] =
          (query_mistral (subprocess_run g) (build_prompt q filtered),
           [Run_call (ollama_args (build_prompt q filtered))])) \<and>
     (filtered = [] \<longrightarrow>
        (\<forall>ranked. semantic_fallback g q = Inr ranked \<longrightarrow>
           chat g q [] =
             (query_mistral (subprocess_run g) (build_prompt q ranked),
              [Encode_call [q], Run_call (ollama_args (build_prompt q ranked))])))"
    by blast
qed

theorem chat_fallback_only_when_empty_witness:
  "filter_data (df tie_env) (extract_filters (nlp tie_env) ''Show me a 2015 show'') = Inr [entry_B] \<and>
   Encode_call [''Show me a 2015 show''] \<notin> set (snd (chat tie_env ''Show me a 2015 show'' [])) \<and>
   snd (chat tie_env ''Show me a 2015 show'' []) =
     [Run_call (ollama_args (build_prompt ''Show me a 2015 show'' [entry_B]))] \<and>
   filter_data (df tie_env) (extract_filters (nlp tie_env) ''Find a 1999 comedy'') = Inr [] \<and>
   Encode_call [''Find a 1999 comedy''] \<in> set (snd (chat tie_env ''Find a 1999 comedy'' []))"
proof -
  have f1: "filter_data (df tie_env) (extract_filters (nlp tie_env) ''Show me a 2015 show'') =
            Inr [entry_B]" by code_simp
  have f2: "filter_data (df tie_env) (extract_filters (nlp tie_env) ''Find a 1999 comedy'') =
            Inr []" by code_simp
  have ne: "[entry_B] \<noteq> []" by simp
  from chat_fallback_only_when_empty [of tie_env "''Show me a 2015 show''" "[entry_B]"] f1 ne
  have a: "Encode_call [''Show me a 2015 show''] \<notin> set (snd (chat tie_env ''Show me a 2015 show'' []))"
    and b: "chat tie_env ''Show me a 2015 show'' [] =
          (query_mistral (subprocess_run tie_env) (build_prompt ''Show me a 2015 show'' [entry_B]),
           [Run_call (ollama_args (build_prompt ''Show me a 2015 show'' [entry_B]))])"
    by blast+
  from chat_fallback_only_when_empty [of tie_env "''Find a 1999 comedy''" "[]"] f2
  have c: "Encode_call [''Find a 1999 comedy''] \<in> set (snd (chat tie_env ''Find a 1999 comedy'' []))"
    by blast
  from b have b': "snd (chat tie_env ''Show me a 2015 show'' []) =
     [Run_call (ollama_args (build_prompt ''Show me a 2015 show'' [entry_B]))]"
    by (simp only: snd_conv)
  from f1 a b' f2 c show ?thesis by (intro conjI)
qed

end
